theory Spec2Isabelle
  imports Main "HOL-Library.Word"
begin

section \<open>The environment of the patcher\<close>

text \<open>
  The patcher (\<^verbatim>\<open>src/main.cpp\<close>) works on a file system and on one global
  \<^verbatim>\<open>std::fstream\<close>, \<^verbatim>\<open>wowExe\<close>. Both are made explicit: every function of the
  source becomes a function on a \<open>world\<close> that returns the world it leaves behind.

  \<^item> The file system is a map from paths to the bytes of regular files.
  \<^item> An operation of the operating system may fail for reasons the program cannot see
    (permissions, a full disk, an I/O error). The world carries a schedule \<open>faults\<close>:
    each operation that reaches the operating system takes the next entry, and fails
    when it is \<open>True\<close>; an exhausted schedule means that nothing fails any more.
  \<^item> Every call of the standard library that acts on the file system or on a stream, and
    every line printed, is appended to \<open>trace\<close>, in the order of execution.
  \<^item> Only regular files are in the file system. A path that names a directory is outside
    it (\<^verbatim>\<open>fs::exists\<close> is true there, and \<^verbatim>\<open>fs::copy\<close> with
    \<^verbatim>\<open>overwrite_existing\<close> alone copies nothing and returns normally): what is proved
    about a target is proved about a target that is a regular file.
  \<^item> In the operations on \<^verbatim>\<open>wowExe\<close> that come first, a write reaches the file at
    once. This gives the calls, the printed lines and the file after \<^verbatim>\<open>close\<close> of every
    run in which the operating system refuses no write. When it refuses one, the buffer
    of the stream decides where that shows and what the file holds then; the section on
    the stream with its buffer adds it.
\<close>

type_synonym byte = "8 word"
type_synonym path = string

datatype event =
    Cout string
  | Cerr string
  | FsCopy path path
  | FsRemove path
  | FsRename path path
  | IfOpen path
  | StOpen path
  | StClear
  | StSeekp int
  | StWrite "byte list"
  | StClose

text \<open>\<^verbatim>\<open>std::fstream\<close>: the associated file (\<open>None\<close> when not open), the two error
  flags that \<^verbatim>\<open>operator!\<close> reads, and the put position.\<close>

record fstream =
  fopen :: "path option"
  failbit :: bool
  badbit :: bool
  ppos :: nat

record world =
  files :: "path \<Rightarrow> byte list option"
  wowExe :: fstream
  faults :: "bool list"
  trace :: "event list"

text \<open>A default-constructed \<^verbatim>\<open>std::fstream\<close>, the state of the global at program start.\<close>

definition closed_stream :: fstream where
  "closed_stream = \<lparr>fopen = None, failbit = False, badbit = False, ppos = 0\<rparr>"

definition nl :: string where
  "nl = [CHR 0x0A]"

definition emit :: "event \<Rightarrow> world \<Rightarrow> world" where
  "emit e w = w\<lparr>trace := trace w @ [e]\<rparr>"

definition take_fault :: "world \<Rightarrow> bool \<times> world" where
  "take_fault w = (case faults w of [] \<Rightarrow> (False, w) | b # bs \<Rightarrow> (b, w\<lparr>faults := bs\<rparr>))"

subsection \<open>\<^verbatim>\<open>std::filesystem\<close>\<close>

definition fs_exists :: "path \<Rightarrow> world \<Rightarrow> bool" where
  "fs_exists p w = (case files w p of None \<Rightarrow> False | Some c \<Rightarrow> True)"

text \<open>\<^verbatim>\<open>fs::copy(from, to, overwrite_existing)\<close>: \<open>Inl\<close> is the exception thrown.\<close>

definition fs_copy :: "path \<Rightarrow> path \<Rightarrow> world \<Rightarrow> world + world" where
  "fs_copy src dst w =
     (let w0 = emit (FsCopy src dst) w in
      case files w0 src of
        None \<Rightarrow> Inl w0
      | Some c \<Rightarrow>
          (case take_fault w0 of
             (fault, w1) \<Rightarrow>
               if fault then Inl w1 else Inr (w1\<lparr>files := (files w1)(dst := Some c)\<rparr>)))"

text \<open>\<^verbatim>\<open>fs::remove(p)\<close>: removing a file that does not exist is not an error.\<close>

definition fs_remove :: "path \<Rightarrow> world \<Rightarrow> world + world" where
  "fs_remove p w =
     (case take_fault (emit (FsRemove p) w) of
        (fault, w1) \<Rightarrow>
          if fault then Inl w1 else Inr (w1\<lparr>files := (files w1)(p := None)\<rparr>))"

text \<open>\<^verbatim>\<open>fs::rename(from, to)\<close>: replaces \<open>to\<close>; throws when \<open>from\<close> does not exist.\<close>

definition fs_rename :: "path \<Rightarrow> path \<Rightarrow> world \<Rightarrow> world + world" where
  "fs_rename src dst w =
     (let w0 = emit (FsRename src dst) w in
      case files w0 src of
        None \<Rightarrow> Inl w0
      | Some c \<Rightarrow>
          (case take_fault w0 of
             (fault, w1) \<Rightarrow>
               if fault then Inl w1
               else Inr (w1\<lparr>files := ((files w1)(src := None))(dst := Some c)\<rparr>)))"

text \<open>The text of \<^verbatim>\<open>e.what()\<close> is chosen by the standard library; one fixed text stands
  for it.\<close>

definition what :: string where
  "what = ''filesystem error''"

subsection \<open>\<^verbatim>\<open>std::ifstream\<close>, as \<^verbatim>\<open>validateExecutable\<close> uses it\<close>

record ifstream =
  idata :: "byte list option"
  ifail :: bool
  gpos :: nat

definition ifstream_open :: "path \<Rightarrow> world \<Rightarrow> ifstream \<times> world" where
  "ifstream_open p w =
     (let w0 = emit (IfOpen p) w in
      case files w0 p of
        None \<Rightarrow> (\<lparr>idata = None, ifail = True, gpos = 0\<rparr>, w0)
      | Some c \<Rightarrow>
          (case take_fault w0 of
             (fault, w1) \<Rightarrow>
               if fault then (\<lparr>idata = None, ifail = True, gpos = 0\<rparr>, w1)
               else (\<lparr>idata = Some c, ifail = False, gpos = 0\<rparr>, w1)))"

text \<open>\<^verbatim>\<open>seekg(0, std::ios::end)\<close> and \<^verbatim>\<open>tellg()\<close>, which is -1 on a failed stream.\<close>

definition seekg_end :: "ifstream \<Rightarrow> ifstream" where
  "seekg_end f =
     (if ifail f then f
      else case idata f of
        None \<Rightarrow> f\<lparr>ifail := True\<rparr>
      | Some c \<Rightarrow> f\<lparr>gpos := length c\<rparr>)"

definition tellg :: "ifstream \<Rightarrow> int" where
  "tellg f = (if ifail f then - 1 else int (gpos f))"

subsection \<open>\<^verbatim>\<open>std::fstream\<close>, the operations on \<^verbatim>\<open>wowExe\<close>\<close>

text \<open>\<^verbatim>\<open>operator!\<close> is \<^verbatim>\<open>fail()\<close>: \<^verbatim>\<open>failbit\<close> or \<^verbatim>\<open>badbit\<close> is set. It does not
  look at whether a file is open; \<^verbatim>\<open>is_open()\<close> does.\<close>

definition stream_fail :: "fstream \<Rightarrow> bool" where
  "stream_fail s = (failbit s \<or> badbit s)"

definition is_open :: "fstream \<Rightarrow> bool" where
  "is_open s = (case fopen s of None \<Rightarrow> False | Some p \<Rightarrow> True)"

text \<open>\<^verbatim>\<open>wowExe.open(p, in | out | binary)\<close>: fails on a stream that is open already and
  on a file that does not exist (this mode creates none); success clears the flags.\<close>

definition stream_open :: "path \<Rightarrow> world \<Rightarrow> world" where
  "stream_open p w =
     (let w0 = emit (StOpen p) w in
      if is_open (wowExe w0) then w0\<lparr>wowExe := (wowExe w0)\<lparr>failbit := True\<rparr>\<rparr>
      else case files w0 p of
        None \<Rightarrow> w0\<lparr>wowExe := (wowExe w0)\<lparr>failbit := True\<rparr>\<rparr>
      | Some c \<Rightarrow>
          (case take_fault w0 of
             (fault, w1) \<Rightarrow>
               if fault then w1\<lparr>wowExe := (wowExe w1)\<lparr>failbit := True\<rparr>\<rparr>
               else w1\<lparr>wowExe :=
                      \<lparr>fopen = Some p, failbit = False, badbit = False, ppos = 0\<rparr>\<rparr>))"

definition stream_clear :: "world \<Rightarrow> world" where
  "stream_clear w =
     (let w0 = emit StClear w in w0\<lparr>wowExe := (wowExe w0)\<lparr>failbit := False, badbit := False\<rparr>\<rparr>)"

text \<open>\<^verbatim>\<open>wowExe.seekp(pos)\<close>: does nothing on a failed stream; sets \<^verbatim>\<open>failbit\<close> when no
  file is open, when the position is negative or when the operating system refuses.\<close>

definition stream_seekp :: "int \<Rightarrow> world \<Rightarrow> world" where
  "stream_seekp pos w =
     (let w0 = emit (StSeekp pos) w in
      if stream_fail (wowExe w0) then w0
      else case fopen (wowExe w0) of
        None \<Rightarrow> w0\<lparr>wowExe := (wowExe w0)\<lparr>failbit := True\<rparr>\<rparr>
      | Some p \<Rightarrow>
          if pos < 0 then w0\<lparr>wowExe := (wowExe w0)\<lparr>failbit := True\<rparr>\<rparr>
          else (case take_fault w0 of
             (fault, w1) \<Rightarrow>
               if fault then w1\<lparr>wowExe := (wowExe w1)\<lparr>failbit := True\<rparr>\<rparr>
               else w1\<lparr>wowExe := (wowExe w1)\<lparr>ppos := nat pos\<rparr>\<rparr>))"

text \<open>Storing one byte at an offset of a file: inside the file the byte is replaced; at
  or past the end the file grows, the gap filled with zero bytes.\<close>

definition put_byte :: "byte list \<Rightarrow> nat \<Rightarrow> byte \<Rightarrow> byte list" where
  "put_byte c i b =
     (if i < length c then c[i := b] else c @ replicate (i - length c) 0 @ [b])"

fun put_bytes :: "byte list \<Rightarrow> nat \<Rightarrow> byte list \<Rightarrow> byte list" where
  "put_bytes c i [] = c"
| "put_bytes c i (b # bs) = put_bytes (put_byte c i b) (Suc i) bs"

text \<open>\<^verbatim>\<open>wowExe.write(buf, n)\<close>: on a stream that is not good only \<^verbatim>\<open>failbit\<close> is set; a
  write that the stream buffer cannot complete sets \<^verbatim>\<open>badbit\<close> (and is taken to store
  nothing); otherwise the bytes are stored at the put position, which advances.\<close>

definition stream_write :: "byte list \<Rightarrow> world \<Rightarrow> world" where
  "stream_write bs w =
     (let w0 = emit (StWrite bs) w in
      if stream_fail (wowExe w0) then w0\<lparr>wowExe := (wowExe w0)\<lparr>failbit := True\<rparr>\<rparr>
      else case fopen (wowExe w0) of
        None \<Rightarrow> w0\<lparr>wowExe := (wowExe w0)\<lparr>badbit := True\<rparr>\<rparr>
      | Some p \<Rightarrow>
          (case files w0 p of
             None \<Rightarrow> w0\<lparr>wowExe := (wowExe w0)\<lparr>badbit := True\<rparr>\<rparr>
           | Some c \<Rightarrow>
               (case take_fault w0 of
                  (fault, w1) \<Rightarrow>
                    if fault then w1\<lparr>wowExe := (wowExe w1)\<lparr>badbit := True\<rparr>\<rparr>
                    else
                      w1\<lparr>files := (files w1)(p := Some (put_bytes c (ppos (wowExe w1)) bs)),
                         wowExe := (wowExe w1)\<lparr>ppos := ppos (wowExe w1) + length bs\<rparr>\<rparr>)))"

definition stream_close :: "world \<Rightarrow> world" where
  "stream_close w =
     (let w0 = emit StClose w in
      case fopen (wowExe w0) of
        None \<Rightarrow> w0\<lparr>wowExe := (wowExe w0)\<lparr>failbit := True\<rparr>\<rparr>
      | Some p \<Rightarrow> w0\<lparr>wowExe := (wowExe w0)\<lparr>fopen := None\<rparr>\<rparr>)"

section \<open>The functions of \<^verbatim>\<open>main.cpp\<close>\<close>

definition kExpectedSize :: int where
  "kExpectedSize = 0x757C00"

definition EXIT_SUCCESS :: int where
  "EXIT_SUCCESS = 0"

definition EXIT_FAILURE :: int where
  "EXIT_FAILURE = 1"

definition handleStreamError :: "fstream \<Rightarrow> string \<Rightarrow> world \<Rightarrow> bool \<times> world" where
  "handleStreamError stream message w =
     (if stream_fail stream then (True, emit (Cerr (message @ nl)) w) else (False, w))"

text \<open>The loop of \<^verbatim>\<open>writeBytesAt\<close>, instantiated at \<^verbatim>\<open>T = std::uint8_t\<close> as \<^verbatim>\<open>main\<close>
  calls it: one \<^verbatim>\<open>write\<close> of \<^verbatim>\<open>sizeof(value) = 1\<close> byte per element.\<close>

fun write_values :: "byte list \<Rightarrow> world \<Rightarrow> world" where
  "write_values [] w = w"
| "write_values (v # vs) w =
     (let w1 = stream_write [v] w in
      case handleStreamError (wowExe w1) ''Failed to write to the stream'' w1 of
        (failed, w2) \<Rightarrow> if failed then w2 else write_values vs w2)"

definition writeBytesAt :: "int \<Rightarrow> byte list \<Rightarrow> world \<Rightarrow> world" where
  "writeBytesAt pos vals w =
     (if stream_fail (wowExe w) then emit (Cerr (''Stream is not open'' @ nl)) w
      else
        let w1 = stream_clear w;
            w2 = stream_seekp pos w1
        in case handleStreamError (wowExe w2) ''Failed to set position in the stream'' w2 of
             (failed, w3) \<Rightarrow> if failed then w3 else write_values vals w3)"

definition writeByteAt :: "int \<Rightarrow> byte \<Rightarrow> world \<Rightarrow> world" where
  "writeByteAt pos v w =
     (if \<not> is_open (wowExe w) then emit (Cerr (''File is not open.'' @ nl)) w
      else
        let w1 = stream_clear w;
            w2 = stream_seekp pos w1
        in case handleStreamError (wowExe w2) ''Unable to seek position'' w2 of
             (failed, w3) \<Rightarrow>
               if failed then w3
               else
                 let w4 = stream_write [v] w3
                 in snd (handleStreamError (wowExe w4) ''Unable to write to file'' w4))"

definition writeRepeatedBytesAt :: "int \<Rightarrow> byte \<Rightarrow> nat \<Rightarrow> world \<Rightarrow> world" where
  "writeRepeatedBytesAt pos v n w =
     (if stream_fail (wowExe w) then emit (Cerr (''File stream is not open.'' @ nl)) w
      else
        let w1 = stream_clear w;
            w2 = stream_seekp pos w1
        in case handleStreamError (wowExe w2) ''Failed to seek to position'' w2 of
             (failed, w3) \<Rightarrow>
               if failed then w3
               else
                 let buffer = replicate n v;
                     w4 = stream_write buffer w3
                 in snd (handleStreamError (wowExe w4) ''Write operation failed'' w4))"

definition createBackup :: "path \<Rightarrow> world \<Rightarrow> path option \<times> world" where
  "createBackup filepath w =
     (let backupPath = filepath @ ''.backup'' in
      case fs_copy filepath backupPath w of
        Inr w1 \<Rightarrow> (Some backupPath, emit (Cout (''Backup created at: '' @ backupPath @ nl)) w1)
      | Inl w1 \<Rightarrow> (None, emit (Cerr (''Failed to create backup: '' @ what @ nl)) w1))"

definition validateExecutable :: "path \<Rightarrow> world \<Rightarrow> bool \<times> world" where
  "validateExecutable filepath w =
     (if \<not> fs_exists filepath w then (False, emit (Cerr (''Executable not found.'' @ nl)) w)
      else case ifstream_open filepath w of
        (file, w1) \<Rightarrow>
          if ifail file
          then (False, emit (Cerr (''Failed to open executable for validation.'' @ nl)) w1)
          else if tellg (seekg_end file) \<noteq> kExpectedSize
          then (False, emit (Cerr (''Validation failed: unexpected file size.'' @ nl)) w1)
          else (True, emit (Cout (''Executable validation passed.'' @ nl)) w1))"

definition restoreBackup :: "path \<Rightarrow> world \<Rightarrow> bool \<times> world" where
  "restoreBackup wow w =
     (let backupPath = wow @ ''.backup'' in
      if fs_exists backupPath w then
        (case fs_remove wow w of
           Inl w1 \<Rightarrow> (False, emit (Cerr (''Failed to restore backup: '' @ what @ nl)) w1)
         | Inr w1 \<Rightarrow>
             (case fs_rename backupPath wow w1 of
                Inl w2 \<Rightarrow> (False, emit (Cerr (''Failed to restore backup: '' @ what @ nl)) w2)
              | Inr w2 \<Rightarrow> (True, w2)))
      else (False, emit (Cerr (''Backup not found.'' @ nl)) w))"

text \<open>The table of \<^verbatim>\<open>main\<close>: offset and replacement bytes, in the order of the source.\<close>

type_synonym patch = "int \<times> byte list"

definition patches :: "patch list" where
  "patches =
    [(0x2A7, [0xC0]),
     (0xE94, [0xEB]),
     (0x2E1C67, replicate 11 0x90),
     (0x33D7C9, [0xEB]),
     (0x355BF, [0xEB]),
     (0x33E0D6, replicate 22 0x90),
     (0x16D899, [0x05, 0x01, 0x00, 0x00, 0x00]),
     (0x2DB241, [50]),
     (0x5CFBC0, [0xC7, 0x05, 0x74, 0x8E, 0xD3, 0x00, 0xFF, 0xFF, 0xFF, 0xFF, 0xC3]),
     (0x469A2C, [0xE9, 0x71, 0xF0, 0x0B, 0x00, 0xF8, 0x13, 0xD4, 0x00, 0x8B, 0x1D, 0xFC]),
     (0x528AA2,
       [0x8D, 0x4D, 0xF0, 0x51, 0x57, 0xFF, 0x15, 0xDC, 0xF5, 0x9D, 0x00, 0x8B, 0x45, 0xF0, 0x8B, 0x15,
        0xF8,
        0x13, 0xD4, 0x00, 0xE9, 0x7A, 0x0F, 0xF4, 0xFF]),
     (0x4691B1,
       [0x89, 0xE5, 0x8B, 0x05, 0xFC, 0x13, 0xD4, 0x00, 0x8B, 0x0D, 0xF8, 0x13, 0xD4, 0x00, 0xEB, 0xC2,
        0x7D,
        0x03, 0x83, 0xC1, 0x01, 0x83, 0xC0, 0x32, 0x83, 0xC1, 0x32, 0x3B, 0x0D, 0xEC, 0xBC, 0xCA, 0x00,
        0x7E,
        0x03, 0x83, 0xE9, 0x01, 0x3B, 0x05, 0xF0, 0xBC, 0xCA, 0x00, 0x7E, 0x03, 0x83, 0xE8, 0x01, 0x83,
        0xE9,
        0x32, 0x83, 0xE8, 0x32, 0x89, 0x0D, 0xF8, 0x13, 0xD4, 0x00, 0x89, 0x05, 0xFC, 0x13, 0xD4, 0x00,
        0x89,
        0xEC, 0x5D, 0xE9, 0xB4, 0xF7, 0xFF, 0xFF, 0xEC, 0x5D, 0xC3, 0xC3]),
     (0x469183,
       [0x83, 0xF8, 0x32, 0x7D, 0x03, 0x83, 0xC0, 0x01, 0x83, 0xF9, 0x32, 0xEB, 0x31])]"

text \<open>The loop \<^verbatim>\<open>for (const auto &[pos, data]: patches) writeBytesAt(pos, data);\<close>\<close>

fun apply_patches :: "patch list \<Rightarrow> world \<Rightarrow> world" where
  "apply_patches [] w = w"
| "apply_patches ((pos, data) # ps) w = apply_patches ps (writeBytesAt pos data w)"

text \<open>The body of \<^verbatim>\<open>main\<close> with its local table as a parameter; \<open>argv\<close> is the argument
  vector, so \<^verbatim>\<open>argc\<close> is its length. \<^verbatim>\<open>errorState\<close> is the constant \<^verbatim>\<open>EXIT_SUCCESS\<close>.\<close>

definition main_with :: "patch list \<Rightarrow> string list \<Rightarrow> world \<Rightarrow> int \<times> world" where
  "main_with table argv w =
     (let errorState = EXIT_SUCCESS in
      if length argv < 2
      then (EXIT_FAILURE, emit (Cerr (''World of Warcraft exe path not provided!'' @ nl)) w)
      else
        let wowPath = argv ! 1 in
        if \<not> fs_exists wowPath w
        then (EXIT_FAILURE, emit (Cerr (''Executable not found at: '' @ wowPath @ nl)) w)
        else case createBackup wowPath w of
          (backup, w1) \<Rightarrow>
            if backup = None
            then (EXIT_FAILURE, emit (Cerr (''Backup creation failed. Aborting.'' @ nl)) w1)
            else case validateExecutable wowPath w1 of
              (valid, w2) \<Rightarrow>
                if \<not> valid
                then (EXIT_FAILURE,
                      emit (Cerr (''Executable validation failed. Aborting.'' @ nl)) w2)
                else
                  let w3 = stream_open wowPath w2 in
                  if stream_fail (wowExe w3)
                  then (EXIT_FAILURE,
                        emit (Cerr (''Failed to open executable for patching.'' @ nl)) w3)
                  else
                    let w4 = apply_patches table w3;
                        w5 = stream_close w4
                    in (errorState,
                        emit (Cout (''Patching completed successfully.'' @ nl)) w5))"

definition main :: "string list \<Rightarrow> world \<Rightarrow> int \<times> world" where
  "main argv w = main_with patches argv w"

subsection \<open>Worlds at program start\<close>

text \<open>At program start the global stream is default-constructed and nothing has been
  traced. Three small file systems serve as concrete inputs: a target of two bytes (the
  wrong size), a target of exactly \<^verbatim>\<open>kExpectedSize\<close> bytes, and a two-byte target that
  has a backup beside it.\<close>

definition start_world :: "(path \<Rightarrow> byte list option) \<Rightarrow> bool list \<Rightarrow> world" where
  "start_world fs fl = \<lparr>files = fs, wowExe = closed_stream, faults = fl, trace = []\<rparr>"

definition tiny_fs :: "path \<Rightarrow> byte list option" where
  "tiny_fs = (\<lambda>q. None)(''Wow.exe'' := Some [0x4D, 0x5A])"

definition full_fs :: "path \<Rightarrow> byte list option" where
  "full_fs = (\<lambda>q. None)(''Wow.exe'' := Some (replicate 7699456 0))"

definition backed_up_fs :: "path \<Rightarrow> byte list option" where
  "backed_up_fs =
     (\<lambda>q. None)(''Wow.exe'' := Some [0x4D, 0xC0], ''Wow.exe.backup'' := Some [0x4D, 0x5A])"

subsection \<open>Reading a trace\<close>

text \<open>The events a run has added to the trace, and the test for a \<^verbatim>\<open>write\<close> on the
  stream.\<close>

definition new_events :: "world \<Rightarrow> world \<Rightarrow> event list" where
  "new_events w w' = drop (length (trace w)) (trace w')"

fun is_write :: "event \<Rightarrow> bool" where
  "is_write (StWrite bs) = True"
| "is_write e = False"

section \<open>The stream with its buffer\<close>

text \<open>
  A \<^verbatim>\<open>std::fstream\<close> is buffered, and \<^verbatim>\<open>main.cpp\<close> leaves the buffer as the library
  sets it up. \<^verbatim>\<open>write\<close> puts its bytes into the buffer of the stream; the operating
  system gets them when the buffer cannot take the next write, or when \<^verbatim>\<open>seekp\<close> or
  \<^verbatim>\<open>close\<close> flush it. So it is there, and not at the call of \<^verbatim>\<open>write\<close> whose bytes
  they are, that a refused write of the operating system shows. Where no operation is
  refused the bytes all arrive, and the file after \<^verbatim>\<open>close\<close> is the one the operations
  above leave; what a failing write leaves behind needs the buffer in the model.

  The world is extended by the bytes \<open>pending\<close> in the buffer and by the number \<open>cap\<close> of
  bytes the buffer holds back. \<^verbatim>\<open>ppos\<close> is now the position of the file descriptor:
  the pending bytes belong at \<open>ppos\<close> and after it. The operations of this section are the
  ones above with the buffer added; their names end in \<open>_b\<close>.
\<close>

record buffered = world +
  pending :: "byte list"
  cap :: nat

definition emit_b :: "event \<Rightarrow> buffered \<Rightarrow> buffered" where
  "emit_b e w = w\<lparr>trace := trace w @ [e]\<rparr>"







definition handleStreamError_b ::
  "fstream \<Rightarrow> string \<Rightarrow> buffered \<Rightarrow> bool \<times> buffered" where
  "handleStreamError_b stream message w =
     (if stream_fail stream then (True, emit_b (Cerr (message @ nl)) w) else (False, w))"




section \<open>Basic facts\<close>

lemma emit_simps [simp]:
  "files (emit e w) = files w"
  "wowExe (emit e w) = wowExe w"
  "faults (emit e w) = faults w"
  "trace (emit e w) = trace w @ [e]"
  by (simp_all add: emit_def)

lemma backup_path_neq [simp]:
  "p @ ''.backup'' \<noteq> p"
  "p \<noteq> p @ ''.backup''"
  by (auto dest: arg_cong [where f = length])

lemma new_events_eq:
  "trace w' = trace w @ es \<Longrightarrow> new_events w w' = es"
  by (simp add: new_events_def)

section \<open>The validator\<close>

text \<open>
  Claim C4. \<^verbatim>\<open>validateExecutable\<close> returns true exactly when the path names a file,
  the file opens for reading, and its size (the position after seeking to its end, which
  is the length of its contents) equals \<^verbatim>\<open>kExpectedSize\<close>; in every other case it
  returns false.
\<close>

theorem validateExecutable_iff:
  "fst (validateExecutable p w) \<longleftrightarrow>
     (\<exists>c. files w p = Some c \<and> \<not> ifail (fst (ifstream_open p w))
        \<and> int (length c) = kExpectedSize)"
  by (auto simp: validateExecutable_def fs_exists_def ifstream_open_def Let_def seekg_end_def
      tellg_def split: option.splits prod.splits bool.splits if_splits)

lemma take_fault_frame [simp]:
  "files (snd (take_fault w)) = files w"
  "wowExe (snd (take_fault w)) = wowExe w"
  "trace (snd (take_fault w)) = trace w"
  "faults (snd (take_fault w)) = tl (faults w)"
  by (simp_all add: take_fault_def split: list.splits)

lemma take_fault_ok:
  "\<not> fst (take_fault w) \<Longrightarrow> take_fault w = (False, w\<lparr>faults := tl (faults w)\<rparr>)"
  by (simp add: take_fault_def split: list.splits)

lemma handleStreamError_simps [simp]:
  "fst (handleStreamError s m w) = stream_fail s"
  "snd (handleStreamError s m w) = (if stream_fail s then emit (Cerr (m @ nl)) w else w)"
  by (simp_all add: handleStreamError_def)

lemma stream_clear_simps [simp]:
  "files (stream_clear w) = files w"
  "faults (stream_clear w) = faults w"
  "trace (stream_clear w) = trace w @ [StClear]"
  "wowExe (stream_clear w) = (wowExe w)\<lparr>failbit := False, badbit := False\<rparr>"
  by (simp_all add: stream_clear_def Let_def)

lemma stream_seekp_frame [simp]:
  "files (stream_seekp pos w) = files w"
  "trace (stream_seekp pos w) = trace w @ [StSeekp pos]"
  "fopen (wowExe (stream_seekp pos w)) = fopen (wowExe w)"
  "badbit (wowExe (stream_seekp pos w)) = badbit (wowExe w)"
  by (simp_all add: stream_seekp_def Let_def split_beta split: option.splits)

lemma stream_write_frame [simp]:
  "trace (stream_write bs w) = trace w @ [StWrite bs]"
  "fopen (wowExe (stream_write bs w)) = fopen (wowExe w)"
  by (simp_all add: stream_write_def Let_def split_beta split: option.splits)




section \<open>The byte writer\<close>



text \<open>The three writers on a stream that is not open and has no error flag set:
  \<^verbatim>\<open>writeByteAt\<close> only prints; the other two clear, seek, and leave \<^verbatim>\<open>failbit\<close> set.\<close>

lemma writeByteAt_not_open:
  "\<not> is_open (wowExe w) \<Longrightarrow> writeByteAt pos v w = emit (Cerr (''File is not open.'' @ nl)) w"
  by (simp add: writeByteAt_def)

lemma writeBytesAt_not_open:
  assumes "fopen (wowExe w) = None" "\<not> stream_fail (wowExe w)"
  shows "writeBytesAt pos vals w =
     w\<lparr>wowExe := (wowExe w)\<lparr>failbit := True\<rparr>,
       trace := trace w @ [StClear, StSeekp pos,
                           Cerr (''Failed to set position in the stream'' @ nl)]\<rparr>"
  using assms
  by (simp add: writeBytesAt_def stream_clear_def stream_seekp_def stream_fail_def
      handleStreamError_def Let_def emit_def)

lemma writeRepeatedBytesAt_not_open:
  assumes "fopen (wowExe w) = None" "\<not> stream_fail (wowExe w)"
  shows "writeRepeatedBytesAt pos v n w =
     w\<lparr>wowExe := (wowExe w)\<lparr>failbit := True\<rparr>,
       trace := trace w @ [StClear, StSeekp pos, Cerr (''Failed to seek to position'' @ nl)]\<rparr>"
  using assms
  by (simp add: writeRepeatedBytesAt_def stream_clear_def stream_seekp_def stream_fail_def
      handleStreamError_def Let_def emit_def)

text \<open>
  Claim C5. The claim wants every writer to return at once, the stream untouched, when
  the stream is not open. \<^verbatim>\<open>writeByteAt\<close> does so: it asks \<^verbatim>\<open>is_open()\<close>. The guards
  of \<^verbatim>\<open>writeBytesAt\<close> and \<^verbatim>\<open>writeRepeatedBytesAt\<close> are \<^verbatim>\<open>!wowExe\<close>, which reads the
  error flags only: on the default-constructed stream, which is not open and has no flag
  set, both go on to \<^verbatim>\<open>clear()\<close> and \<^verbatim>\<open>seekp()\<close>, and the failed seek leaves
  \<^verbatim>\<open>failbit\<close> set.
\<close>

theorem writers_on_closed_stream:
  "\<not> is_open (wowExe (start_world tiny_fs []))
   \<and> \<not> stream_fail (wowExe (start_world tiny_fs []))
   \<and> trace (writeBytesAt 0x2A7 [0xC0] (start_world tiny_fs []))
       = [StClear, StSeekp 0x2A7, Cerr (''Failed to set position in the stream'' @ nl)]
   \<and> failbit (wowExe (writeBytesAt 0x2A7 [0xC0] (start_world tiny_fs [])))
   \<and> trace (writeRepeatedBytesAt 0x2A7 0xC0 3 (start_world tiny_fs []))
       = [StClear, StSeekp 0x2A7, Cerr (''Failed to seek to position'' @ nl)]
   \<and> failbit (wowExe (writeRepeatedBytesAt 0x2A7 0xC0 3 (start_world tiny_fs [])))
   \<and> writeByteAt 0x2A7 0xC0 (start_world tiny_fs [])
       = emit (Cerr (''File is not open.'' @ nl)) (start_world tiny_fs [])"
  by (simp add: start_world_def closed_stream_def is_open_def writeBytesAt_def
      writeRepeatedBytesAt_def writeByteAt_def stream_fail_def stream_clear_def stream_seekp_def
      handleStreamError_def Let_def)

section \<open>Backup and restore\<close>

lemma fs_remove_Inr:
  "fs_remove p w = Inr w1 \<Longrightarrow>
     files w1 = (files w)(p := None) \<and> trace w1 = trace w @ [FsRemove p]"
  by (auto simp: fs_remove_def split_beta split: if_splits)

lemma fs_rename_Inr:
  "fs_rename src dst w = Inr w1 \<Longrightarrow>
     (\<exists>c. files w src = Some c \<and> files w1 = ((files w)(src := None))(dst := Some c))
     \<and> trace w1 = trace w @ [FsRename src dst]"
  by (auto simp: fs_rename_def Let_def split_beta split: if_splits option.splits)

text \<open>
  Claim C9. Without a file at \<open>P + ".backup"\<close>, \<^verbatim>\<open>restoreBackup\<close> prints "Backup not
  found." and returns false, the file system as it was. With a backup, and
  \<^verbatim>\<open>fs::remove\<close> and \<^verbatim>\<open>fs::rename\<close> both returning normally, it calls the two in this
  order and returns true; afterwards \<open>P\<close> holds the bytes the backup held, the backup is
  gone, and no other file has changed.
\<close>

theorem restoreBackup_spec:
  "(files w (P @ ''.backup'') = None \<longrightarrow>
      restoreBackup P w = (False, emit (Cerr (''Backup not found.'' @ nl)) w))
   \<and> (\<forall>c w1 w2. files w (P @ ''.backup'') = Some c \<longrightarrow> fs_remove P w = Inr w1 \<longrightarrow>
         fs_rename (P @ ''.backup'') P w1 = Inr w2 \<longrightarrow>
           restoreBackup P w = (True, w2)
           \<and> files w2 P = Some c \<and> files w2 (P @ ''.backup'') = None
           \<and> (\<forall>q. q \<noteq> P \<longrightarrow> q \<noteq> P @ ''.backup'' \<longrightarrow> files w2 q = files w q)
           \<and> trace w2 = trace w @ [FsRemove P, FsRename (P @ ''.backup'') P])"
proof (intro conjI allI impI)
  assume "files w (P @ ''.backup'') = None"
  then show "restoreBackup P w = (False, emit (Cerr (''Backup not found.'' @ nl)) w)"
    by (simp add: restoreBackup_def fs_exists_def)
next
  fix c w1 w2
  assume b: "files w (P @ ''.backup'') = Some c"
    and rm: "fs_remove P w = Inr w1"
    and rn: "fs_rename (P @ ''.backup'') P w1 = Inr w2"
  show "restoreBackup P w = (True, w2)"
    using b rm rn by (simp add: restoreBackup_def fs_exists_def)
  note f1 = fs_remove_Inr [OF rm] and f2 = fs_rename_Inr [OF rn]
  from f1 b have b1: "files w1 (P @ ''.backup'') = Some c"
    by simp
  from f2 b1 have fw2: "files w2 = ((files w1)(P @ ''.backup'' := None))(P := Some c)"
    by auto
  show "files w2 P = Some c"
    by (simp add: fw2)
  show "files w2 (P @ ''.backup'') = None"
    by (simp add: fw2)
  show "trace w2 = trace w @ [FsRemove P, FsRename (P @ ''.backup'') P]"
    using f1 f2 by simp
  fix q
  assume "q \<noteq> P" "q \<noteq> P @ ''.backup''"
  then show "files w2 q = files w q"
    using f1 by (simp add: fw2)
qed

theorem restoreBackup_spec_witness:
  "files (start_world tiny_fs []) (''Wow.exe'' @ ''.backup'') = None
   \<and> restoreBackup ''Wow.exe'' (start_world tiny_fs []) =
       (False, emit (Cerr (''Backup not found.'' @ nl)) (start_world tiny_fs []))
   \<and> files (start_world backed_up_fs []) (''Wow.exe'' @ ''.backup'') = Some [0x4D, 0x5A]
   \<and> fs_remove ''Wow.exe'' (start_world backed_up_fs []) =
       Inr ((start_world backed_up_fs [])
              \<lparr>files := (backed_up_fs)(''Wow.exe'' := None), trace := [FsRemove ''Wow.exe'']\<rparr>)
   \<and> fs_rename (''Wow.exe'' @ ''.backup'') ''Wow.exe''
        ((start_world backed_up_fs [])
              \<lparr>files := (backed_up_fs)(''Wow.exe'' := None), trace := [FsRemove ''Wow.exe'']\<rparr>) =
       Inr ((start_world tiny_fs [])
              \<lparr>trace := [FsRemove ''Wow.exe'', FsRename ''Wow.exe.backup'' ''Wow.exe'']\<rparr>)
   \<and> restoreBackup ''Wow.exe'' (start_world backed_up_fs []) =
       (True, (start_world tiny_fs [])
              \<lparr>trace := [FsRemove ''Wow.exe'', FsRename ''Wow.exe.backup'' ''Wow.exe'']\<rparr>)
   \<and> files ((start_world tiny_fs [])
              \<lparr>trace := [FsRemove ''Wow.exe'', FsRename ''Wow.exe.backup'' ''Wow.exe'']\<rparr>)
         ''Wow.exe'' = Some [0x4D, 0x5A]"
proof -
  let ?w = "start_world backed_up_fs []"
  let ?w1 = "?w\<lparr>files := (backed_up_fs)(''Wow.exe'' := None), trace := [FsRemove ''Wow.exe'']\<rparr>"
  let ?w2 = "(start_world tiny_fs [])
              \<lparr>trace := [FsRemove ''Wow.exe'', FsRename ''Wow.exe.backup'' ''Wow.exe'']\<rparr>"
  have a: "files (start_world tiny_fs []) (''Wow.exe'' @ ''.backup'') = None"
    by (simp add: start_world_def tiny_fs_def)
  have b: "files ?w (''Wow.exe'' @ ''.backup'') = Some [0x4D, 0x5A]"
    by (simp add: start_world_def backed_up_fs_def)
  have rm: "fs_remove ''Wow.exe'' ?w = Inr ?w1"
    by (simp add: fs_remove_def start_world_def take_fault_def emit_def)
  have rn: "fs_rename (''Wow.exe'' @ ''.backup'') ''Wow.exe'' ?w1 = Inr ?w2"
    by (simp add: fs_rename_def start_world_def take_fault_def emit_def Let_def
        backed_up_fs_def tiny_fs_def fun_upd_twist)
  from restoreBackup_spec [of "start_world tiny_fs []" "''Wow.exe''"] a
  have r1: "restoreBackup ''Wow.exe'' (start_world tiny_fs []) =
       (False, emit (Cerr (''Backup not found.'' @ nl)) (start_world tiny_fs []))"
    by blast
  from restoreBackup_spec [of ?w "''Wow.exe''"] b rm rn
  have r2: "restoreBackup ''Wow.exe'' ?w = (True, ?w2) \<and> files ?w2 ''Wow.exe'' = Some [0x4D, 0x5A]"
    by blast
  from a r1 b rm rn r2 show ?thesis
    by blast
qed

section \<open>Writes under a fault schedule\<close>

lemma put_bytes_single [simp]: "put_bytes c i [b] = put_byte c i b"
  by simp

lemma length_put_byte: "length (put_byte c i b) = max (length c) (Suc i)"
  by (simp add: put_byte_def)

lemma put_bytes_in_range:
  "i + length bs \<le> length c \<Longrightarrow> put_bytes c i bs = take i c @ bs @ drop (i + length bs) c"
proof (induction bs arbitrary: c i)
  case Nil
  then show ?case by simp
next
  case (Cons b bs)
  then have i: "i < length c"
    by simp
  have "put_bytes (c[i := b]) (Suc i) bs =
      take (Suc i) (c[i := b]) @ bs @ drop (Suc i + length bs) (c[i := b])"
    using Cons.prems by (intro Cons.IH) simp
  also have "take (Suc i) (c[i := b]) = take i c @ [b]"
    using i by (simp add: take_Suc_conv_app_nth)
  also have "drop (Suc i + length bs) (c[i := b]) = drop (Suc i + length bs) c"
    by simp
  finally show ?case
    using i by (simp add: put_byte_def)
qed

lemma stream_write_ok:
  assumes "fopen (wowExe w) = Some p" "\<not> stream_fail (wowExe w)" "files w p = Some c"
    and "\<not> fst (take_fault w)"
  shows "stream_write bs w =
     w\<lparr>files := (files w)(p := Some (put_bytes c (ppos (wowExe w)) bs)),
       wowExe := (wowExe w)\<lparr>ppos := ppos (wowExe w) + length bs\<rparr>,
       faults := tl (faults w), trace := trace w @ [StWrite bs]\<rparr>"
  using assms by (simp add: stream_write_def Let_def take_fault_def emit_def split: list.splits)

lemma write_values_Cons:
  "write_values (v # vs) w =
     (if stream_fail (wowExe (stream_write [v] w))
      then emit (Cerr (''Failed to write to the stream'' @ nl)) (stream_write [v] w)
      else write_values vs (stream_write [v] w))"
  by (simp add: Let_def split_beta)

lemma write_values_ok:
  assumes "fopen (wowExe w) = Some p" "\<not> stream_fail (wowExe w)" "files w p = Some c"
    and "True \<notin> set (take (length vs) (faults w))"
  shows "write_values vs w =
     w\<lparr>files := (files w)(p := Some (put_bytes c (ppos (wowExe w)) vs)),
       wowExe := (wowExe w)\<lparr>ppos := ppos (wowExe w) + length vs\<rparr>,
       faults := drop (length vs) (faults w),
       trace := trace w @ map (\<lambda>v. StWrite [v]) vs\<rparr>"
  using assms
proof (induction vs arbitrary: w c)
  case Nil
  have "(files w)(p := Some c) = files w"
    using Nil.prems(3) by (rule fun_upd_idem)
  then show ?case by simp
next
  case (Cons v vs)
  from Cons.prems(4) have tf: "\<not> fst (take_fault w)"
    by (cases "faults w") (simp_all add: take_fault_def)
  let ?w1 = "stream_write [v] w"
  have sw: "?w1 =
      w\<lparr>files := (files w)(p := Some (put_bytes c (ppos (wowExe w)) [v])),
        wowExe := (wowExe w)\<lparr>ppos := ppos (wowExe w) + length [v]\<rparr>,
        faults := tl (faults w), trace := trace w @ [StWrite [v]]\<rparr>"
    using Cons.prems(1-3) tf by (rule stream_write_ok)
  have good1: "\<not> stream_fail (wowExe ?w1)"
    using Cons.prems(2) by (simp add: sw stream_fail_def)
  have step: "write_values (v # vs) w = write_values vs ?w1"
    using good1 by (simp del: write_values.simps add: write_values_Cons)
  have ih: "write_values vs ?w1 =
     ?w1\<lparr>files := (files ?w1)(p := Some (put_bytes (put_byte c (ppos (wowExe w)) v)
                (ppos (wowExe ?w1)) vs)),
       wowExe := (wowExe ?w1)\<lparr>ppos := ppos (wowExe ?w1) + length vs\<rparr>,
       faults := drop (length vs) (faults ?w1),
       trace := trace ?w1 @ map (\<lambda>v. StWrite [v]) vs\<rparr>"
  proof (rule Cons.IH)
    show "fopen (wowExe ?w1) = Some p" using Cons.prems(1) by simp
    show "\<not> stream_fail (wowExe ?w1)" by (rule good1)
    show "files ?w1 p = Some (put_byte c (ppos (wowExe w)) v)" by (simp add: sw)
    show "True \<notin> set (take (length vs) (faults ?w1))"
      using Cons.prems(4) by (cases "faults w") (simp_all add: sw)
  qed
  show ?case
    unfolding step ih by (simp add: sw drop_Suc; simp add: fun_upd_def)
qed

lemma writeBytesAt_unfold:
  "writeBytesAt pos vals w =
     (if stream_fail (wowExe w) then emit (Cerr (''Stream is not open'' @ nl)) w
      else if stream_fail (wowExe (stream_seekp pos (stream_clear w)))
      then emit (Cerr (''Failed to set position in the stream'' @ nl))
             (stream_seekp pos (stream_clear w))
      else write_values vals (stream_seekp pos (stream_clear w)))"
  by (simp add: writeBytesAt_def Let_def split_beta)

lemma clear_seekp_ok:
  assumes "fopen (wowExe w) = Some p" "\<not> stream_fail (wowExe w)" "0 \<le> pos"
    and "\<not> fst (take_fault w)"
  shows "stream_seekp pos (stream_clear w) =
      w\<lparr>wowExe := (wowExe w)\<lparr>ppos := nat pos\<rparr>, faults := tl (faults w),
        trace := trace w @ [StClear, StSeekp pos]\<rparr>"
  using assms
  by (simp add: stream_seekp_def stream_clear_def stream_fail_def Let_def take_fault_def
      emit_def split: list.splits)

lemma clear_seekp_fault:
  assumes "fopen (wowExe w) = Some p" "\<not> stream_fail (wowExe w)" "0 \<le> pos"
    and "fst (take_fault w)"
  shows "stream_seekp pos (stream_clear w) =
      w\<lparr>wowExe := (wowExe w)\<lparr>failbit := True\<rparr>, faults := tl (faults w),
        trace := trace w @ [StClear, StSeekp pos]\<rparr>"
  using assms
  by (simp add: stream_seekp_def stream_clear_def stream_fail_def Let_def take_fault_def
      emit_def split: list.splits)

lemma stream_open_ok:
  assumes "\<not> is_open (wowExe w)" "files w p = Some c" "\<not> fst (take_fault w)"
  shows "stream_open p w =
      w\<lparr>wowExe := \<lparr>fopen = Some p, failbit = False, badbit = False, ppos = 0\<rparr>,
        faults := tl (faults w), trace := trace w @ [StOpen p]\<rparr>"
  using assms
  by (simp add: stream_open_def Let_def take_fault_def emit_def split: list.splits)

text \<open>A refused seek ends the call before any write.\<close>

lemma writeBytesAt_seek_refused:
  assumes "fopen (wowExe w) = Some p" "\<not> stream_fail (wowExe w)" "0 \<le> pos"
    and "faults w = True # rest"
  shows "writeBytesAt pos vals w =
     w\<lparr>wowExe := (wowExe w)\<lparr>failbit := True\<rparr>, faults := rest,
       trace := trace w @ [StClear, StSeekp pos,
                           Cerr (''Failed to set position in the stream'' @ nl)]\<rparr>"
proof -
  have g: "\<not> failbit (wowExe w)" "\<not> badbit (wowExe w)"
    using assms(2) by (simp_all add: stream_fail_def)
  from assms(4) have tf: "fst (take_fault w)"
    by (simp add: take_fault_def)
  have sk: "stream_seekp pos (stream_clear w) =
      w\<lparr>wowExe := (wowExe w)\<lparr>failbit := True\<rparr>, faults := tl (faults w),
        trace := trace w @ [StClear, StSeekp pos]\<rparr>"
    using assms(1,2,3) tf by (rule clear_seekp_fault)
  show ?thesis
    using assms(2,4) g by (simp add: writeBytesAt_unfold sk stream_fail_def emit_def)
qed

section \<open>The steps of \<^verbatim>\<open>main\<close>\<close>

lemma no_fault_take:
  "True \<notin> set (faults w) \<Longrightarrow> \<not> fst (take_fault w)"
  by (cases "faults w") (simp_all add: take_fault_def)

lemma no_fault_tl:
  "True \<notin> set fs \<Longrightarrow> True \<notin> set (tl fs)"
  by (cases fs) simp_all

lemma no_fault_drop:
  "True \<notin> set fs \<Longrightarrow> True \<notin> set (drop n fs)"
  by (auto dest: in_set_dropD)

lemma no_fault_takeI:
  "True \<notin> set fs \<Longrightarrow> True \<notin> set (take n fs)"
  by (auto dest: in_set_takeD)

lemma createBackup_ok:
  assumes "files w p = Some c" "\<not> fst (take_fault w)"
  shows "createBackup p w =
     (Some (p @ ''.backup''),
      w\<lparr>files := (files w)(p @ ''.backup'' := Some c), faults := tl (faults w),
        trace := trace w @ [FsCopy p (p @ ''.backup''),
                            Cout (''Backup created at: '' @ (p @ ''.backup'') @ nl)]\<rparr>)"
  using assms
  by (simp add: createBackup_def fs_copy_def Let_def take_fault_def emit_def split: list.splits)

lemma createBackup_frame [simp]:
  "wowExe (snd (createBackup p w)) = wowExe w"
  "files (snd (createBackup p w)) p = files w p"
  by (simp_all add: createBackup_def fs_copy_def Let_def split_beta split: option.splits)

lemma createBackup_others:
  "q \<noteq> p @ ''.backup'' \<Longrightarrow> files (snd (createBackup p w)) q = files w q"
  by (simp add: createBackup_def fs_copy_def Let_def split_beta split: option.splits)

lemma createBackup_Some:
  assumes "fst (createBackup p w) \<noteq> None"
  shows "fst (createBackup p w) = Some (p @ ''.backup'')"
    and "files (snd (createBackup p w)) (p @ ''.backup'') = files w p"
    and "trace (snd (createBackup p w)) =
      trace w @ [FsCopy p (p @ ''.backup''),
                 Cout (''Backup created at: '' @ (p @ ''.backup'') @ nl)]"
  using assms
  by (simp_all add: createBackup_def fs_copy_def Let_def split_beta
      split: option.splits if_splits)


lemma validateExecutable_frame [simp]:
  "files (snd (validateExecutable p w)) = files w"
  "wowExe (snd (validateExecutable p w)) = wowExe w"
  by (simp_all add: validateExecutable_def ifstream_open_def Let_def split_beta
      split: option.splits)

lemma validateExecutable_ok:
  assumes "files w p = Some c" "int (length c) = kExpectedSize" "\<not> fst (take_fault w)"
  shows "validateExecutable p w =
     (True, w\<lparr>faults := tl (faults w),
              trace := trace w @ [IfOpen p, Cout (''Executable validation passed.'' @ nl)]\<rparr>)"
  using assms
  by (simp add: validateExecutable_def fs_exists_def ifstream_open_def seekg_end_def tellg_def
      Let_def take_fault_def emit_def split: list.splits)

lemma validateExecutable_wrong_size:
  assumes "files w p = Some c" "int (length c) \<noteq> kExpectedSize"
  shows "\<not> fst (validateExecutable p w)"
  using assms
  by (simp add: validateExecutable_def fs_exists_def ifstream_open_def seekg_end_def tellg_def
      Let_def split_beta)

lemma validateExecutable_trace:
  "\<exists>es. trace (snd (validateExecutable p w)) = trace w @ es \<and> \<not> list_ex is_write es"
  by (simp add: validateExecutable_def ifstream_open_def Let_def split_beta
      split: option.splits)

lemma stream_close_simps [simp]:
  "files (stream_close w) = files w"
  "faults (stream_close w) = faults w"
  "trace (stream_close w) = trace w @ [StClose]"
  by (simp_all add: stream_close_def Let_def split: option.splits)

lemma stream_open_frame [simp]:
  "files (stream_open p w) = files w"
  "trace (stream_open p w) = trace w @ [StOpen p]"
  by (simp_all add: stream_open_def Let_def split_beta split: option.splits)

lemma stream_open_target:
  "\<not> stream_fail (wowExe (stream_open p w)) \<Longrightarrow> fopen (wowExe (stream_open p w)) = Some p"
  by (simp add: stream_open_def Let_def split_beta stream_fail_def
      split: option.splits if_splits)


lemma writeBytesAt_ok:
  assumes "fopen (wowExe w) = Some p" "\<not> stream_fail (wowExe w)" "files w p = Some c"
    and "0 \<le> pos" "True \<notin> set (take (Suc (length vals)) (faults w))"
  shows "writeBytesAt pos vals w =
     w\<lparr>files := (files w)(p := Some (put_bytes c (nat pos) vals)),
       wowExe := (wowExe w)\<lparr>ppos := nat pos + length vals\<rparr>,
       faults := drop (Suc (length vals)) (faults w),
       trace := trace w @ [StClear, StSeekp pos] @ map (\<lambda>v. StWrite [v]) vals\<rparr>"
proof -
  have g: "\<not> failbit (wowExe w)" "\<not> badbit (wowExe w)"
    using assms(2) by (simp_all add: stream_fail_def)
  from assms(5) have tf: "\<not> fst (take_fault w)"
    by (cases "faults w") (simp_all add: take_fault_def)
  let ?w1 = "stream_seekp pos (stream_clear w)"
  have sk: "?w1 =
      w\<lparr>wowExe := (wowExe w)\<lparr>ppos := nat pos\<rparr>, faults := tl (faults w),
        trace := trace w @ [StClear, StSeekp pos]\<rparr>"
    using assms(1,2,4) tf by (rule clear_seekp_ok)
  have good1: "\<not> stream_fail (wowExe ?w1)"
    using g by (simp add: sk stream_fail_def)
  have step: "writeBytesAt pos vals w = write_values vals ?w1"
    using assms(2) good1 by (simp add: writeBytesAt_unfold)
  have wv: "write_values vals ?w1 =
     ?w1\<lparr>files := (files ?w1)(p := Some (put_bytes c (ppos (wowExe ?w1)) vals)),
       wowExe := (wowExe ?w1)\<lparr>ppos := ppos (wowExe ?w1) + length vals\<rparr>,
       faults := drop (length vals) (faults ?w1),
       trace := trace ?w1 @ map (\<lambda>v. StWrite [v]) vals\<rparr>"
  proof (rule write_values_ok)
    show "fopen (wowExe ?w1) = Some p" using assms(1) by simp
    show "\<not> stream_fail (wowExe ?w1)" by (rule good1)
    show "files ?w1 p = Some c" using assms(3) by simp
    show "True \<notin> set (take (length vals) (faults ?w1))"
      using assms(5) by (cases "faults w") (simp_all add: sk)
  qed
  show ?thesis
    unfolding step wv by (simp add: sk drop_Suc; simp add: fun_upd_def)
qed

text \<open>On a stream whose error flags are set, the loop of \<^verbatim>\<open>main\<close> prints one line per
  entry and does nothing else.\<close>

lemma apply_patches_failed:
  "stream_fail (wowExe w) \<Longrightarrow>
     apply_patches ps w =
       w\<lparr>trace := trace w @ replicate (length ps) (Cerr (''Stream is not open'' @ nl))\<rparr>"
proof (induction ps arbitrary: w)
  case Nil
  then show ?case by simp
next
  case (Cons a ps)
  obtain pos data where a: "a = (pos, data)"
    by (cases a)
  have "writeBytesAt pos data w = emit (Cerr (''Stream is not open'' @ nl)) w"
    using Cons.prems by (simp add: writeBytesAt_unfold)
  moreover have "stream_fail (wowExe (emit (Cerr (''Stream is not open'' @ nl)) w))"
    using Cons.prems by simp
  ultimately show ?case
    using Cons.IH [of "emit (Cerr (''Stream is not open'' @ nl)) w"]
    by (simp add: a emit_def replicate_app_Cons_same)
qed

text \<open>The loop itself visits every entry, in the order of the table.\<close>

lemma apply_patches_fold:
  "apply_patches ps w = fold (\<lambda>(pos, data). writeBytesAt pos data) ps w"
  by (induction ps arbitrary: w) auto

lemma main_with_no_arg:
  "length argv < 2 \<Longrightarrow>
     main_with table argv w =
       (EXIT_FAILURE, emit (Cerr (''World of Warcraft exe path not provided!'' @ nl)) w)"
  by (simp add: main_with_def)

lemma main_with_not_found:
  "2 \<le> length argv \<Longrightarrow> p = argv ! 1 \<Longrightarrow> \<not> fs_exists p w \<Longrightarrow>
     main_with table argv w =
       (EXIT_FAILURE, emit (Cerr (''Executable not found at: '' @ p @ nl)) w)"
  by (simp add: main_with_def Let_def)

lemma main_with_backup_failed:
  "2 \<le> length argv \<Longrightarrow> p = argv ! 1 \<Longrightarrow> fs_exists p w \<Longrightarrow> fst (createBackup p w) = None \<Longrightarrow>
     main_with table argv w =
       (EXIT_FAILURE,
        emit (Cerr (''Backup creation failed. Aborting.'' @ nl)) (snd (createBackup p w)))"
  by (simp add: main_with_def Let_def split_beta)

lemma main_with_invalid:
  "2 \<le> length argv \<Longrightarrow> p = argv ! 1 \<Longrightarrow> fs_exists p w \<Longrightarrow> fst (createBackup p w) \<noteq> None \<Longrightarrow>
   \<not> fst (validateExecutable p (snd (createBackup p w))) \<Longrightarrow>
     main_with table argv w =
       (EXIT_FAILURE,
        emit (Cerr (''Executable validation failed. Aborting.'' @ nl))
          (snd (validateExecutable p (snd (createBackup p w)))))"
  by (auto simp: main_with_def Let_def split_beta)

lemma main_with_open_failed:
  "2 \<le> length argv \<Longrightarrow> p = argv ! 1 \<Longrightarrow> fs_exists p w \<Longrightarrow> fst (createBackup p w) \<noteq> None \<Longrightarrow>
   fst (validateExecutable p (snd (createBackup p w))) \<Longrightarrow>
   stream_fail (wowExe (stream_open p (snd (validateExecutable p (snd (createBackup p w)))))) \<Longrightarrow>
     main_with table argv w =
       (EXIT_FAILURE,
        emit (Cerr (''Failed to open executable for patching.'' @ nl))
          (stream_open p (snd (validateExecutable p (snd (createBackup p w))))))"
  by (auto simp: main_with_def Let_def split_beta)

lemma main_with_patched:
  "2 \<le> length argv \<Longrightarrow> p = argv ! 1 \<Longrightarrow> fs_exists p w \<Longrightarrow> fst (createBackup p w) \<noteq> None \<Longrightarrow>
   fst (validateExecutable p (snd (createBackup p w))) \<Longrightarrow>
   \<not> stream_fail (wowExe (stream_open p (snd (validateExecutable p (snd (createBackup p w)))))) \<Longrightarrow>
     main_with table argv w =
       (EXIT_SUCCESS,
        emit (Cout (''Patching completed successfully.'' @ nl))
          (stream_close (apply_patches table
            (stream_open p (snd (validateExecutable p (snd (createBackup p w))))))))"
  by (auto simp: main_with_def Let_def split_beta EXIT_SUCCESS_def)

section \<open>Whole runs\<close>

text \<open>
  Claim C8. Run the engine with the patch set of the one entry \<open>(0x2A7, [0xC0])\<close> on a
  target of the expected size, from a closed stream and with no operation refused by
  the operating system: the run succeeds, and the target afterwards is the target before
  with the byte at offset 0x2A7 replaced by 0xC0: same length, 0xC0 at 0x2A7, every
  other byte as it was.
\<close>

theorem single_entry_patch:
  assumes "2 \<le> length argv" "files w (argv ! 1) = Some c" "int (length c) = kExpectedSize"
    and "\<not> is_open (wowExe w)" "True \<notin> set (faults w)"
  shows "fst (main_with [(0x2A7, [0xC0])] argv w) = EXIT_SUCCESS
    \<and> files (snd (main_with [(0x2A7, [0xC0])] argv w)) (argv ! 1) = Some (c[0x2A7 := 0xC0])
    \<and> length (c[0x2A7 := 0xC0]) = length c
    \<and> c[0x2A7 := 0xC0] ! 0x2A7 = 0xC0
    \<and> (\<forall>i. i \<noteq> 0x2A7 \<longrightarrow> c[0x2A7 := 0xC0] ! i = c ! i)"
proof -
  define p where "p = argv ! 1"
  let ?w1 = "snd (createBackup p w)"
  let ?w2 = "snd (validateExecutable p ?w1)"
  let ?w3 = "stream_open p ?w2"
  let ?w4 = "writeBytesAt 0x2A7 [0xC0] ?w3"
  have fp: "files w p = Some c"
    using assms(2) by (simp add: p_def)
  have ex: "fs_exists p w"
    using fp by (simp add: fs_exists_def)
  have cb: "createBackup p w =
     (Some (p @ ''.backup''),
      w\<lparr>files := (files w)(p @ ''.backup'' := Some c), faults := tl (faults w),
        trace := trace w @ [FsCopy p (p @ ''.backup''),
                            Cout (''Backup created at: '' @ (p @ ''.backup'') @ nl)]\<rparr>)"
    using fp no_fault_take [OF assms(5)] by (rule createBackup_ok)
  have b: "fst (createBackup p w) \<noteq> None"
    by (simp add: cb)
  have f1: "files ?w1 p = Some c" "True \<notin> set (faults ?w1)" "\<not> is_open (wowExe ?w1)"
    using fp assms(4,5) by (simp_all add: cb no_fault_tl)
  have ve: "validateExecutable p ?w1 =
     (True, ?w1\<lparr>faults := tl (faults ?w1),
              trace := trace ?w1 @ [IfOpen p, Cout (''Executable validation passed.'' @ nl)]\<rparr>)"
    using f1(1) assms(3) no_fault_take [OF f1(2)] by (rule validateExecutable_ok)
  have v: "fst (validateExecutable p ?w1)"
    by (simp add: ve)
  have f2: "files ?w2 p = Some c" "True \<notin> set (faults ?w2)" "\<not> is_open (wowExe ?w2)"
    using f1 by (simp_all add: ve no_fault_tl)
  have so: "?w3 =
      ?w2\<lparr>wowExe := \<lparr>fopen = Some p, failbit = False, badbit = False, ppos = 0\<rparr>,
        faults := tl (faults ?w2), trace := trace ?w2 @ [StOpen p]\<rparr>"
    using f2(3,1) no_fault_take [OF f2(2)] by (rule stream_open_ok)
  have f3: "fopen (wowExe ?w3) = Some p" "\<not> stream_fail (wowExe ?w3)" "files ?w3 p = Some c"
    "True \<notin> set (faults ?w3)"
    using f2 by (simp_all add: so stream_fail_def no_fault_tl)
  have wr: "?w4 =
     ?w3\<lparr>files := (files ?w3)(p := Some (put_bytes c (nat 0x2A7) [0xC0])),
       wowExe := (wowExe ?w3)\<lparr>ppos := nat 0x2A7 + length [0xC0 :: byte]\<rparr>,
       faults := drop (Suc (length [0xC0 :: byte])) (faults ?w3),
       trace := trace ?w3 @ [StClear, StSeekp 0x2A7] @ map (\<lambda>v. StWrite [v]) [0xC0]\<rparr>"
    using f3(1-3) _ no_fault_takeI [OF f3(4)] by (rule writeBytesAt_ok) simp
  have run: "main_with [(0x2A7, [0xC0])] argv w =
       (EXIT_SUCCESS,
        emit (Cout (''Patching completed successfully.'' @ nl))
          (stream_close (apply_patches [(0x2A7, [0xC0])] ?w3)))"
    using assms(1) p_def ex b v f3(2) by (rule main_with_patched)
  have inside: "0x2A7 < length c"
    using assms(3) by (simp add: kExpectedSize_def)
  have "files (snd (main_with [(0x2A7, [0xC0])] argv w)) p = files ?w4 p"
    by (simp add: run)
  also have "\<dots> = Some (put_byte c 0x2A7 0xC0)"
    by (subst wr) simp
  also have "put_byte c 0x2A7 0xC0 = c[0x2A7 := 0xC0]"
    using inside by (simp add: put_byte_def)
  finally have "files (snd (main_with [(0x2A7, [0xC0])] argv w)) (argv ! 1)
      = Some (c[0x2A7 := 0xC0])"
    by (simp only: p_def)
  moreover have "fst (main_with [(0x2A7, [0xC0])] argv w) = EXIT_SUCCESS"
    by (simp add: run)
  moreover have "c[0x2A7 := 0xC0] ! 0x2A7 = 0xC0"
    using inside by simp
  ultimately show ?thesis
    by simp
qed

theorem single_entry_patch_witness:
  "2 \<le> length [''patcher'', ''Wow.exe'']
   \<and> files (start_world full_fs []) ([''patcher'', ''Wow.exe''] ! 1) = Some (replicate 7699456 0)
   \<and> int (length (replicate 7699456 (0::byte))) = kExpectedSize
   \<and> \<not> is_open (wowExe (start_world full_fs []))
   \<and> True \<notin> set (faults (start_world full_fs []))
   \<and> fst (main_with [(0x2A7, [0xC0])] [''patcher'', ''Wow.exe''] (start_world full_fs []))
       = EXIT_SUCCESS
   \<and> files (snd (main_with [(0x2A7, [0xC0])] [''patcher'', ''Wow.exe''] (start_world full_fs [])))
        ''Wow.exe'' = Some ((replicate 7699456 0)[0x2A7 := 0xC0])"
proof -
  have h1: "2 \<le> length [''patcher'', ''Wow.exe'']"
    by simp
  have h2: "files (start_world full_fs []) ([''patcher'', ''Wow.exe''] ! 1)
      = Some (replicate 7699456 0)"
    by (simp add: start_world_def full_fs_def)
  have h3: "int (length (replicate 7699456 (0::byte))) = kExpectedSize"
    by (simp add: kExpectedSize_def)
  have h4: "\<not> is_open (wowExe (start_world full_fs []))"
    by (simp add: start_world_def closed_stream_def is_open_def)
  have h5: "True \<notin> set (faults (start_world full_fs []))"
    by (simp add: start_world_def)
  have n: "[''patcher'', ''Wow.exe''] ! 1 = ''Wow.exe''"
    by simp
  from single_entry_patch [OF h1 h2 h3 h4 h5]
  have "fst (main_with [(0x2A7, [0xC0])] [''patcher'', ''Wow.exe''] (start_world full_fs []))
       = EXIT_SUCCESS
   \<and> files (snd (main_with [(0x2A7, [0xC0])] [''patcher'', ''Wow.exe''] (start_world full_fs [])))
        ''Wow.exe'' = Some ((replicate 7699456 0)[0x2A7 := 0xC0])"
    unfolding n by blast
  with h1 h2 h3 h4 h5 show ?thesis
    by blast
qed

subsection \<open>Concrete runs\<close>


text \<open>A target of the expected size: copy, validation and opening succeed.\<close>

lemma full_prefix:
  "createBackup ''Wow.exe'' (start_world full_fs (False # False # False # fl)) =
     (Some ''Wow.exe.backup'',
      \<lparr>files = full_fs(''Wow.exe.backup'' := Some (replicate 7699456 0)),
       wowExe = closed_stream, faults = False # False # fl,
       trace = [FsCopy ''Wow.exe'' ''Wow.exe.backup'',
                Cout (''Backup created at: Wow.exe.backup'' @ nl)]\<rparr>)"
  "validateExecutable ''Wow.exe''
     (snd (createBackup ''Wow.exe'' (start_world full_fs (False # False # False # fl)))) =
     (True,
      \<lparr>files = full_fs(''Wow.exe.backup'' := Some (replicate 7699456 0)),
       wowExe = closed_stream, faults = False # fl,
       trace = [FsCopy ''Wow.exe'' ''Wow.exe.backup'',
                Cout (''Backup created at: Wow.exe.backup'' @ nl),
                IfOpen ''Wow.exe'',
                Cout (''Executable validation passed.'' @ nl)]\<rparr>)"
  "stream_open ''Wow.exe''
     (snd (validateExecutable ''Wow.exe''
       (snd (createBackup ''Wow.exe'' (start_world full_fs (False # False # False # fl)))))) =
      \<lparr>files = full_fs(''Wow.exe.backup'' := Some (replicate 7699456 0)),
       wowExe = \<lparr>fopen = Some ''Wow.exe'', failbit = False, badbit = False, ppos = 0\<rparr>,
       faults = fl,
       trace = [FsCopy ''Wow.exe'' ''Wow.exe.backup'',
                Cout (''Backup created at: Wow.exe.backup'' @ nl),
                IfOpen ''Wow.exe'',
                Cout (''Executable validation passed.'' @ nl),
                StOpen ''Wow.exe'']\<rparr>"
  by (simp_all add: createBackup_def fs_copy_def validateExecutable_def fs_exists_def
      ifstream_open_def seekg_end_def tellg_def kExpectedSize_def stream_open_def is_open_def
      closed_stream_def Let_def take_fault_def emit_def start_world_def full_fs_def)

lemma patches_split:
  "patches = (0x2A7, [0xC0]) # tl patches"
  "length (tl patches) = 12"
  "tl patches = (0xE94, [0xEB]) # tl (tl patches)"
  "length (tl (tl patches)) = 11"
  by (simp_all add: patches_def)

text \<open>The seek of the first entry is refused, and nothing is refused after that.\<close>

lemma first_seek_refused_run:
  "main [''patcher'', ''Wow.exe''] (start_world full_fs [False, False, False, True]) =
     (EXIT_SUCCESS,
      \<lparr>files = full_fs(''Wow.exe.backup'' := Some (replicate 7699456 0)),
       wowExe = \<lparr>fopen = None, failbit = True, badbit = False, ppos = 0\<rparr>,
       faults = [],
       trace = [FsCopy ''Wow.exe'' ''Wow.exe.backup'',
                Cout (''Backup created at: Wow.exe.backup'' @ nl),
                IfOpen ''Wow.exe'',
                Cout (''Executable validation passed.'' @ nl),
                StOpen ''Wow.exe'',
                StClear, StSeekp 0x2A7,
                Cerr (''Failed to set position in the stream'' @ nl)]
               @ replicate 12 (Cerr (''Stream is not open'' @ nl))
               @ [StClose, Cout (''Patching completed successfully.'' @ nl)]\<rparr>)"
proof -
  let ?argv = "[''patcher'', ''Wow.exe'']"
  let ?w = "start_world full_fs [False, False, False, True]"
  let ?fs = "full_fs(''Wow.exe.backup'' := Some (replicate 7699456 0))"
  let ?t3 = "[FsCopy ''Wow.exe'' ''Wow.exe.backup'',
              Cout (''Backup created at: Wow.exe.backup'' @ nl),
              IfOpen ''Wow.exe'',
              Cout (''Executable validation passed.'' @ nl),
              StOpen ''Wow.exe'']"
  let ?w3 = "\<lparr>files = ?fs,
       wowExe = \<lparr>fopen = Some ''Wow.exe'', failbit = False, badbit = False, ppos = 0\<rparr>,
       faults = [True], trace = ?t3\<rparr>"
  let ?w4 = "\<lparr>files = ?fs,
       wowExe = \<lparr>fopen = Some ''Wow.exe'', failbit = True, badbit = False, ppos = 0\<rparr>,
       faults = [],
       trace = ?t3 @ [StClear, StSeekp 0x2A7,
                Cerr (''Failed to set position in the stream'' @ nl)]\<rparr>"
  have p: "''Wow.exe'' = ?argv ! 1"
    by simp
  have ex: "fs_exists ''Wow.exe'' ?w"
    by (simp add: fs_exists_def start_world_def full_fs_def)
  have cb: "fst (createBackup ''Wow.exe'' ?w) \<noteq> None"
    unfolding full_prefix(1) by simp
  have ve: "fst (validateExecutable ''Wow.exe'' (snd (createBackup ''Wow.exe'' ?w)))"
    unfolding full_prefix(2) by simp
  have so: "stream_open ''Wow.exe''
      (snd (validateExecutable ''Wow.exe'' (snd (createBackup ''Wow.exe'' ?w)))) = ?w3"
    unfolding full_prefix(3) by simp
  have good: "\<not> stream_fail (wowExe (stream_open ''Wow.exe''
      (snd (validateExecutable ''Wow.exe'' (snd (createBackup ''Wow.exe'' ?w))))))"
    unfolding so by (simp add: stream_fail_def)
  have run: "main ?argv ?w =
      (EXIT_SUCCESS,
        emit (Cout (''Patching completed successfully.'' @ nl))
          (stream_close (apply_patches patches ?w3)))"
    unfolding main_def so [symmetric]
    using _ p ex cb ve good by (rule main_with_patched) simp
  have first: "writeBytesAt 0x2A7 [0xC0] ?w3 = ?w4"
  proof -
    have "writeBytesAt 0x2A7 [0xC0] ?w3 =
       ?w3\<lparr>wowExe := (wowExe ?w3)\<lparr>failbit := True\<rparr>, faults := [],
         trace := trace ?w3 @ [StClear, StSeekp 0x2A7,
                           Cerr (''Failed to set position in the stream'' @ nl)]\<rparr>"
      by (rule writeBytesAt_seek_refused [where p = "''Wow.exe''"])
        (simp_all add: stream_fail_def)
    also have "\<dots> = ?w4"
      by simp
    finally show ?thesis .
  qed
  have failed: "stream_fail (wowExe ?w4)"
    by (simp add: stream_fail_def)
  have "apply_patches patches ?w3 = apply_patches (tl patches) ?w4"
    by (subst patches_split(1)) (simp only: apply_patches.simps first)
  also have "\<dots> = ?w4\<lparr>trace := trace ?w4
      @ replicate (length (tl patches)) (Cerr (''Stream is not open'' @ nl))\<rparr>"
    using failed by (rule apply_patches_failed)
  finally have loop: "apply_patches patches ?w3 =
      ?w4\<lparr>trace := trace ?w4 @ replicate 12 (Cerr (''Stream is not open'' @ nl))\<rparr>"
    by (simp only: patches_split(2))
  show ?thesis
    unfolding run loop by (simp add: stream_close_def emit_def)
qed

text \<open>The first entry is written, the seek of the second entry is refused, and nothing
  is refused after that.\<close>

lemma second_seek_refused_run:
  "main [''patcher'', ''Wow.exe'']
     (start_world full_fs [False, False, False, False, False, True]) =
     (EXIT_SUCCESS,
      \<lparr>files = (full_fs(''Wow.exe.backup'' := Some (replicate 7699456 0)))
                 (''Wow.exe'' := Some ((replicate 7699456 0)[0x2A7 := 0xC0])),
       wowExe = \<lparr>fopen = None, failbit = True, badbit = False, ppos = 0x2A8\<rparr>,
       faults = [],
       trace = [FsCopy ''Wow.exe'' ''Wow.exe.backup'',
                Cout (''Backup created at: Wow.exe.backup'' @ nl),
                IfOpen ''Wow.exe'',
                Cout (''Executable validation passed.'' @ nl),
                StOpen ''Wow.exe'',
                StClear, StSeekp 0x2A7, StWrite [0xC0],
                StClear, StSeekp 0xE94,
                Cerr (''Failed to set position in the stream'' @ nl)]
               @ replicate 11 (Cerr (''Stream is not open'' @ nl))
               @ [StClose, Cout (''Patching completed successfully.'' @ nl)]\<rparr>)"
proof -
  let ?argv = "[''patcher'', ''Wow.exe'']"
  let ?w = "start_world full_fs [False, False, False, False, False, True]"
  let ?fs = "full_fs(''Wow.exe.backup'' := Some (replicate 7699456 0))"
  let ?fs' = "?fs(''Wow.exe'' := Some ((replicate 7699456 0)[0x2A7 := 0xC0]))"
  let ?t3 = "[FsCopy ''Wow.exe'' ''Wow.exe.backup'',
              Cout (''Backup created at: Wow.exe.backup'' @ nl),
              IfOpen ''Wow.exe'',
              Cout (''Executable validation passed.'' @ nl),
              StOpen ''Wow.exe'']"
  let ?w3 = "\<lparr>files = ?fs,
       wowExe = \<lparr>fopen = Some ''Wow.exe'', failbit = False, badbit = False, ppos = 0\<rparr>,
       faults = [False, False, True], trace = ?t3\<rparr>"
  let ?w4 = "\<lparr>files = ?fs',
       wowExe = \<lparr>fopen = Some ''Wow.exe'', failbit = False, badbit = False, ppos = 0x2A8\<rparr>,
       faults = [True],
       trace = ?t3 @ [StClear, StSeekp 0x2A7, StWrite [0xC0]]\<rparr>"
  let ?w5 = "\<lparr>files = ?fs',
       wowExe = \<lparr>fopen = Some ''Wow.exe'', failbit = True, badbit = False, ppos = 0x2A8\<rparr>,
       faults = [],
       trace = ?t3 @ [StClear, StSeekp 0x2A7, StWrite [0xC0], StClear, StSeekp 0xE94,
                Cerr (''Failed to set position in the stream'' @ nl)]\<rparr>"
  have p: "''Wow.exe'' = ?argv ! 1"
    by simp
  have ex: "fs_exists ''Wow.exe'' ?w"
    by (simp add: fs_exists_def start_world_def full_fs_def)
  have cb: "fst (createBackup ''Wow.exe'' ?w) \<noteq> None"
    unfolding full_prefix(1) by simp
  have ve: "fst (validateExecutable ''Wow.exe'' (snd (createBackup ''Wow.exe'' ?w)))"
    unfolding full_prefix(2) by simp
  have so: "stream_open ''Wow.exe''
      (snd (validateExecutable ''Wow.exe'' (snd (createBackup ''Wow.exe'' ?w)))) = ?w3"
    unfolding full_prefix(3) by simp
  have good: "\<not> stream_fail (wowExe (stream_open ''Wow.exe''
      (snd (validateExecutable ''Wow.exe'' (snd (createBackup ''Wow.exe'' ?w))))))"
    unfolding so by (simp add: stream_fail_def)
  have run: "main ?argv ?w =
      (EXIT_SUCCESS,
        emit (Cout (''Patching completed successfully.'' @ nl))
          (stream_close (apply_patches patches ?w3)))"
    unfolding main_def so [symmetric]
    using _ p ex cb ve good by (rule main_with_patched) simp
  have first: "writeBytesAt 0x2A7 [0xC0] ?w3 = ?w4"
  proof -
    have "writeBytesAt 0x2A7 [0xC0] ?w3 =
       ?w3\<lparr>files := (files ?w3)(''Wow.exe'' :=
                  Some (put_bytes (replicate 7699456 0) (nat 0x2A7) [0xC0])),
         wowExe := (wowExe ?w3)\<lparr>ppos := nat 0x2A7 + length [0xC0 :: byte]\<rparr>,
         faults := drop (Suc (length [0xC0 :: byte])) (faults ?w3),
         trace := trace ?w3 @ [StClear, StSeekp 0x2A7] @ map (\<lambda>v. StWrite [v]) [0xC0]\<rparr>"
      by (rule writeBytesAt_ok) (simp_all add: stream_fail_def full_fs_def)
    also have "\<dots> = ?w4"
      by (simp add: put_byte_def)
    finally show ?thesis .
  qed
  have second: "writeBytesAt 0xE94 [0xEB] ?w4 = ?w5"
  proof -
    have "writeBytesAt 0xE94 [0xEB] ?w4 =
       ?w4\<lparr>wowExe := (wowExe ?w4)\<lparr>failbit := True\<rparr>, faults := [],
         trace := trace ?w4 @ [StClear, StSeekp 0xE94,
                           Cerr (''Failed to set position in the stream'' @ nl)]\<rparr>"
      by (rule writeBytesAt_seek_refused [where p = "''Wow.exe''"])
        (simp_all add: stream_fail_def)
    also have "\<dots> = ?w5"
      by simp
    finally show ?thesis .
  qed
  have failed: "stream_fail (wowExe ?w5)"
    by (simp add: stream_fail_def)
  have "apply_patches patches ?w3 = apply_patches (tl patches) ?w4"
    by (subst patches_split(1)) (simp only: apply_patches.simps first)
  also have "\<dots> = apply_patches (tl (tl patches)) ?w5"
    by (subst patches_split(3)) (simp only: apply_patches.simps second)
  also have "\<dots> = ?w5\<lparr>trace := trace ?w5
      @ replicate (length (tl (tl patches))) (Cerr (''Stream is not open'' @ nl))\<rparr>"
    using failed by (rule apply_patches_failed)
  finally have loop: "apply_patches patches ?w3 =
      ?w5\<lparr>trace := trace ?w5 @ replicate 11 (Cerr (''Stream is not open'' @ nl))\<rparr>"
    by (simp only: patches_split(4))
  show ?thesis
    unfolding run loop by (simp add: stream_close_def emit_def)
qed

text \<open>
  Claim C2. When the argument is present, the target exists, \<^verbatim>\<open>createBackup\<close> returns
  a path, \<^verbatim>\<open>validateExecutable\<close> returns true and the stream opens, \<^verbatim>\<open>main\<close> returns
  \<^verbatim>\<open>EXIT_SUCCESS\<close>, whatever the fault schedule does to the seeks and writes of the
  patch loop.
\<close>

theorem main_exit_success:
  assumes "2 \<le> length argv" "p = argv ! 1" "fs_exists p w"
    and "fst (createBackup p w) \<noteq> None"
    and "fst (validateExecutable p (snd (createBackup p w)))"
    and "\<not> stream_fail
           (wowExe (stream_open p (snd (validateExecutable p (snd (createBackup p w))))))"
  shows "fst (main argv w) = EXIT_SUCCESS"
  unfolding main_def by (subst main_with_patched [OF assms]) simp

theorem main_exit_success_witness:
  "2 \<le> length [''patcher'', ''Wow.exe'']
   \<and> ''Wow.exe'' = [''patcher'', ''Wow.exe''] ! 1
   \<and> fs_exists ''Wow.exe'' (start_world full_fs [False, False, False, True])
   \<and> fst (createBackup ''Wow.exe'' (start_world full_fs [False, False, False, True])) \<noteq> None
   \<and> fst (validateExecutable ''Wow.exe''
         (snd (createBackup ''Wow.exe'' (start_world full_fs [False, False, False, True]))))
   \<and> \<not> stream_fail (wowExe (stream_open ''Wow.exe''
         (snd (validateExecutable ''Wow.exe''
           (snd (createBackup ''Wow.exe'' (start_world full_fs [False, False, False, True])))))))
   \<and> Cerr (''Failed to set position in the stream'' @ nl)
        \<in> set (trace (snd (main [''patcher'', ''Wow.exe'']
                  (start_world full_fs [False, False, False, True]))))
   \<and> fst (main [''patcher'', ''Wow.exe''] (start_world full_fs [False, False, False, True]))
        = EXIT_SUCCESS"
proof -
  let ?w = "start_world full_fs [False, False, False, True]"
  have h1: "2 \<le> length [''patcher'', ''Wow.exe'']"
    by simp
  have h2: "''Wow.exe'' = [''patcher'', ''Wow.exe''] ! 1"
    by simp
  have h3: "fs_exists ''Wow.exe'' ?w"
    by (simp add: fs_exists_def start_world_def full_fs_def)
  have h4: "fst (createBackup ''Wow.exe'' ?w) \<noteq> None"
    unfolding full_prefix(1) by simp
  have h5: "fst (validateExecutable ''Wow.exe'' (snd (createBackup ''Wow.exe'' ?w)))"
    unfolding full_prefix(2) by simp
  have h6: "\<not> stream_fail (wowExe (stream_open ''Wow.exe''
         (snd (validateExecutable ''Wow.exe'' (snd (createBackup ''Wow.exe'' ?w))))))"
    unfolding full_prefix(3) by (simp add: stream_fail_def)
  have f: "Cerr (''Failed to set position in the stream'' @ nl)
        \<in> set (trace (snd (main [''patcher'', ''Wow.exe''] ?w)))"
    unfolding first_seek_refused_run by simp
  from h1 h2 h3 h4 h5 h6 f main_exit_success [OF h1 h2 h3 h4 h5 h6] show ?thesis
    by blast
qed

text \<open>
  Claim C7. The loop of \<^verbatim>\<open>main\<close> calls \<^verbatim>\<open>writeBytesAt\<close> for each of the 13 entries,
  but a failed seek or write leaves \<^verbatim>\<open>failbit\<close> or \<^verbatim>\<open>badbit\<close> set, and the guard
  \<^verbatim>\<open>!wowExe\<close> at the head of \<^verbatim>\<open>writeBytesAt\<close> returns before \<^verbatim>\<open>clear()\<close> is
  reached. In the run below only the seek of the first entry is refused: that entry
  prints "Failed to set position in the stream", and the other 12 entries get neither a
  seek nor a write, each call printing "Stream is not open"; no later operation would
  have been refused, the target keeps all its bytes, and the run still exits with
  success.
\<close>

theorem entries_after_a_failure:
  "length patches = 13
   \<and> faults (start_world full_fs [False, False, False, True]) = [False, False, False, True]
   \<and> fst (main [''patcher'', ''Wow.exe''] (start_world full_fs [False, False, False, True]))
       = EXIT_SUCCESS
   \<and> trace (snd (main [''patcher'', ''Wow.exe''] (start_world full_fs [False, False, False, True])))
       = [FsCopy ''Wow.exe'' ''Wow.exe.backup'',
          Cout (''Backup created at: Wow.exe.backup'' @ nl),
          IfOpen ''Wow.exe'',
          Cout (''Executable validation passed.'' @ nl),
          StOpen ''Wow.exe'',
          StClear, StSeekp 0x2A7,
          Cerr (''Failed to set position in the stream'' @ nl)]
         @ replicate 12 (Cerr (''Stream is not open'' @ nl))
         @ [StClose, Cout (''Patching completed successfully.'' @ nl)]
   \<and> files (snd (main [''patcher'', ''Wow.exe''] (start_world full_fs [False, False, False, True])))
        ''Wow.exe''
       = Some (replicate 7699456 0)
   \<and> faults (snd (main [''patcher'', ''Wow.exe'']
         (start_world full_fs [False, False, False, True]))) = []"
  unfolding first_seek_refused_run by (simp add: patches_def start_world_def full_fs_def)

section \<open>The order of backup and validation\<close>





section \<open>Writes are gated by backup and validation\<close>

lemma write_values_trace:
  "\<exists>es. trace (write_values vs w) = trace w @ es"
proof (induction vs arbitrary: w)
  case Nil
  then show ?case by simp
next
  case (Cons v vs)
  obtain es where "trace (write_values vs (stream_write [v] w)) = trace (stream_write [v] w) @ es"
    using Cons.IH by blast
  then show ?case
    by (simp del: write_values.simps add: write_values_Cons)
qed

lemma writeBytesAt_trace:
  "\<exists>es. trace (writeBytesAt pos vals w) = trace w @ es"
proof -
  obtain es where "trace (write_values vals (stream_seekp pos (stream_clear w))) =
      trace (stream_seekp pos (stream_clear w)) @ es"
    using write_values_trace by blast
  then show ?thesis
    by (simp add: writeBytesAt_unfold)
qed

lemma apply_patches_trace:
  "\<exists>es. trace (apply_patches ps w) = trace w @ es"
proof (induction ps arbitrary: w)
  case Nil
  then show ?case by simp
next
  case (Cons a ps)
  obtain pos data where a: "a = (pos, data)"
    by (cases a)
  obtain es1 where 1: "trace (writeBytesAt pos data w) = trace w @ es1"
    using writeBytesAt_trace by blast
  obtain es2 where "trace (apply_patches ps (writeBytesAt pos data w)) =
      trace (writeBytesAt pos data w) @ es2"
    using Cons.IH by blast
  then show ?case
    by (simp add: a 1)
qed

lemma createBackup_quiet:
  "\<exists>e. trace (snd (createBackup p w)) = trace w @ [FsCopy p (p @ ''.backup''), e]
     \<and> \<not> is_write e"
  by (simp add: createBackup_def fs_copy_def Let_def split_beta split: option.splits)

text \<open>Up to the return of the validator nothing has been written, and the target is as
  it was.\<close>

lemma before_open_quiet:
  "\<not> list_ex is_write (new_events w (snd (validateExecutable p (snd (createBackup p w)))))"
  "\<not> list_ex is_write (new_events w (snd (createBackup p w)))"
proof -
  obtain e where e: "trace (snd (createBackup p w)) = trace w @ [FsCopy p (p @ ''.backup''), e]"
    "\<not> is_write e"
    using createBackup_quiet by blast
  obtain es where es:
    "trace (snd (validateExecutable p (snd (createBackup p w)))) =
       trace (snd (createBackup p w)) @ es" "\<not> list_ex is_write es"
    using validateExecutable_trace by blast
  have "new_events w (snd (validateExecutable p (snd (createBackup p w)))) =
      [FsCopy p (p @ ''.backup''), e] @ es"
    by (rule new_events_eq) (simp add: es(1) e(1))
  then show "\<not> list_ex is_write
      (new_events w (snd (validateExecutable p (snd (createBackup p w)))))"
    using e(2) es(2) by simp
  have "new_events w (snd (createBackup p w)) = [FsCopy p (p @ ''.backup''), e]"
    by (rule new_events_eq) (simp add: e(1))
  then show "\<not> list_ex is_write (new_events w (snd (createBackup p w)))"
    using e(2) by simp
qed

lemma new_events_emit:
  "new_events w (emit e w') = new_events w w' @ [e]" if "length (trace w) \<le> length (trace w')"
  using that by (simp add: new_events_def)

lemma new_events_self [simp]: "new_events w w = []"
  by (simp add: new_events_def)

lemma trace_grows:
  "length (trace w) \<le> length (trace (snd (createBackup p w)))"
  "length (trace w) \<le> length (trace (snd (validateExecutable p w)))"
  "length (trace w) \<le> length (trace (stream_open p w))"
proof -
  show "length (trace w) \<le> length (trace (snd (createBackup p w)))"
    using createBackup_quiet [of p w] by auto
  show "length (trace w) \<le> length (trace (snd (validateExecutable p w)))"
    using validateExecutable_trace [of p w] by auto
  show "length (trace w) \<le> length (trace (stream_open p w))"
    by simp
qed

text \<open>A run that does not get past the opening of the stream returns
  \<^verbatim>\<open>EXIT_FAILURE\<close>, has written nothing, and leaves the target as it was.\<close>

lemma main_with_abort:
  assumes "p = argv ! 1"
    and "\<not> (2 \<le> length argv \<and> fs_exists p w \<and> fst (createBackup p w) \<noteq> None
          \<and> fst (validateExecutable p (snd (createBackup p w)))
          \<and> \<not> stream_fail (wowExe (stream_open p
                (snd (validateExecutable p (snd (createBackup p w)))))))"
  shows "fst (main_with table argv w) = EXIT_FAILURE
    \<and> \<not> list_ex is_write (new_events w (snd (main_with table argv w)))
    \<and> files (snd (main_with table argv w)) p = files w p"
proof -
  let ?w1 = "snd (createBackup p w)"
  let ?w2 = "snd (validateExecutable p ?w1)"
  let ?w3 = "stream_open p ?w2"
  have l1: "length (trace w) \<le> length (trace ?w1)"
    by (rule trace_grows)
  have l2: "length (trace w) \<le> length (trace ?w2)"
    using l1 trace_grows(2) [of ?w1 p] by simp
  have l3: "length (trace w) \<le> length (trace ?w3)"
    using l2 by simp
  have q3: "new_events w ?w3 = new_events w ?w2 @ [StOpen p]"
    using l2 by (simp add: new_events_def)
  consider (noarg) "length argv < 2"
    | (missing) "2 \<le> length argv" "\<not> fs_exists p w"
    | (nobackup) "2 \<le> length argv" "fs_exists p w" "fst (createBackup p w) = None"
    | (invalid) "2 \<le> length argv" "fs_exists p w" "fst (createBackup p w) \<noteq> None"
        "\<not> fst (validateExecutable p ?w1)"
    | (noopen) "2 \<le> length argv" "fs_exists p w" "fst (createBackup p w) \<noteq> None"
        "fst (validateExecutable p ?w1)" "stream_fail (wowExe ?w3)"
    using assms(2) by fastforce
  then show ?thesis
  proof cases
    case noarg
    then show ?thesis
      by (simp add: main_with_no_arg new_events_def)
  next
    case missing
    then show ?thesis
      using assms(1) by (simp add: main_with_not_found new_events_def)
  next
    case nobackup
    have "main_with table argv w =
        (EXIT_FAILURE, emit (Cerr (''Backup creation failed. Aborting.'' @ nl)) ?w1)"
      using nobackup(1) assms(1) nobackup(2,3) by (rule main_with_backup_failed)
    then show ?thesis
      using before_open_quiet(2) [of w p] l1 by (simp add: new_events_emit)
  next
    case invalid
    have "main_with table argv w =
        (EXIT_FAILURE, emit (Cerr (''Executable validation failed. Aborting.'' @ nl)) ?w2)"
      using invalid(1) assms(1) invalid(2-4) by (rule main_with_invalid)
    then show ?thesis
      using before_open_quiet(1) [of w p] l2 by (simp add: new_events_emit)
  next
    case noopen
    have "main_with table argv w =
        (EXIT_FAILURE, emit (Cerr (''Failed to open executable for patching.'' @ nl)) ?w3)"
      using noopen(1) assms(1) noopen(2-5) by (rule main_with_open_failed)
    then show ?thesis
      using before_open_quiet(1) [of w p] l3 by (simp add: new_events_emit q3)
  qed
qed


text \<open>
  Claim C3. If a run of \<^verbatim>\<open>main\<close> has issued a \<^verbatim>\<open>write\<close> on the stream, or has left
  the target different from what it was, then \<^verbatim>\<open>createBackup\<close> had returned the backup
  path and \<^verbatim>\<open>validateExecutable\<close> had returned true on the world the backup left; when
  the validator returned, the backup file held the target's original bytes and no write
  had been issued yet (the trace at that moment is a prefix of the final trace, so every
  write comes later). In particular, for a target whose size differs from
  \<^verbatim>\<open>kExpectedSize\<close> the run ends with \<^verbatim>\<open>EXIT_FAILURE\<close>, without any write and with
  the target unchanged.
\<close>

theorem writes_only_after_backup_and_validation:
  assumes "p = argv ! 1"
  shows "(list_ex is_write (new_events w (snd (main argv w)))
            \<or> files (snd (main argv w)) p \<noteq> files w p \<longrightarrow>
          2 \<le> length argv
          \<and> fst (createBackup p w) = Some (p @ ''.backup'')
          \<and> fst (validateExecutable p (snd (createBackup p w)))
          \<and> files (snd (validateExecutable p (snd (createBackup p w)))) (p @ ''.backup'')
              = files w p
          \<and> \<not> list_ex is_write
                (new_events w (snd (validateExecutable p (snd (createBackup p w)))))
          \<and> take (length (trace (snd (validateExecutable p (snd (createBackup p w))))))
                (trace (snd (main argv w)))
              = trace (snd (validateExecutable p (snd (createBackup p w)))))
    \<and> (\<forall>c. 2 \<le> length argv \<longrightarrow> files w p = Some c \<longrightarrow> int (length c) \<noteq> kExpectedSize \<longrightarrow>
          fst (main argv w) = EXIT_FAILURE
          \<and> \<not> list_ex is_write (new_events w (snd (main argv w)))
          \<and> files (snd (main argv w)) p = Some c)"
proof (intro conjI allI impI)
  let ?w1 = "snd (createBackup p w)"
  let ?w2 = "snd (validateExecutable p ?w1)"
  let ?w3 = "stream_open p ?w2"
  assume mutated: "list_ex is_write (new_events w (snd (main argv w)))
      \<or> files (snd (main argv w)) p \<noteq> files w p"
  have passed: "2 \<le> length argv \<and> fs_exists p w \<and> fst (createBackup p w) \<noteq> None
          \<and> fst (validateExecutable p ?w1) \<and> \<not> stream_fail (wowExe ?w3)"
  proof (rule ccontr)
    assume "\<not> ?thesis"
    with assms have "\<not> list_ex is_write (new_events w (snd (main_with patches argv w)))
        \<and> files (snd (main_with patches argv w)) p = files w p"
      using main_with_abort [of p argv w patches] by blast
    with mutated show False
      by (simp add: main_def)
  qed
  then show "2 \<le> length argv" and "fst (validateExecutable p ?w1)"
    by simp_all
  from passed have b: "fst (createBackup p w) \<noteq> None"
    by simp
  show "fst (createBackup p w) = Some (p @ ''.backup'')"
    using b by (rule createBackup_Some(1))
  show "files ?w2 (p @ ''.backup'') = files w p"
    using createBackup_Some(2) [OF b] by simp
  show "\<not> list_ex is_write (new_events w ?w2)"
    by (rule before_open_quiet(1))
  have run: "main argv w =
       (EXIT_SUCCESS,
        emit (Cout (''Patching completed successfully.'' @ nl))
          (stream_close (apply_patches patches ?w3)))"
    unfolding main_def using passed assms by (intro main_with_patched) simp_all
  obtain es where "trace (apply_patches patches ?w3) = trace ?w3 @ es"
    using apply_patches_trace by blast
  then show "take (length (trace ?w2)) (trace (snd (main argv w))) = trace ?w2"
    by (simp add: run)
next
  fix c
  let ?w1 = "snd (createBackup p w)"
  assume n: "2 \<le> length argv" and c: "files w p = Some c"
    and size: "int (length c) \<noteq> kExpectedSize"
  have "files ?w1 p = Some c"
    using c by simp
  then have "\<not> fst (validateExecutable p ?w1)"
    using size by (rule validateExecutable_wrong_size)
  then have abort: "fst (main_with patches argv w) = EXIT_FAILURE
    \<and> \<not> list_ex is_write (new_events w (snd (main_with patches argv w)))
    \<and> files (snd (main_with patches argv w)) p = files w p"
    using assms by (intro main_with_abort) simp_all
  then show "fst (main argv w) = EXIT_FAILURE"
    and "\<not> list_ex is_write (new_events w (snd (main argv w)))"
    and "files (snd (main argv w)) p = Some c"
    using c by (simp_all add: main_def)
qed

theorem writes_only_after_backup_and_validation_witness:
  "''Wow.exe'' = [''patcher'', ''Wow.exe''] ! 1
   \<and> list_ex is_write
        (new_events (start_world full_fs [False, False, False, False, False, True])
           (snd (main [''patcher'', ''Wow.exe'']
              (start_world full_fs [False, False, False, False, False, True]))))
   \<and> fst (createBackup ''Wow.exe'' (start_world full_fs [False, False, False, False, False, True]))
       = Some (''Wow.exe'' @ ''.backup'')
   \<and> fst (validateExecutable ''Wow.exe''
         (snd (createBackup ''Wow.exe'' (start_world full_fs [False, False, False, False, False, True]))))
   \<and> 2 \<le> length [''patcher'', ''Wow.exe'']
   \<and> files (start_world tiny_fs []) ''Wow.exe'' = Some [0x4D, 0x5A]
   \<and> int (length [0x4D, 0x5A :: byte]) \<noteq> kExpectedSize
   \<and> fst (main [''patcher'', ''Wow.exe''] (start_world tiny_fs [])) = EXIT_FAILURE
   \<and> \<not> list_ex is_write
        (new_events (start_world tiny_fs [])
           (snd (main [''patcher'', ''Wow.exe''] (start_world tiny_fs []))))
   \<and> files (snd (main [''patcher'', ''Wow.exe''] (start_world tiny_fs []))) ''Wow.exe''
       = Some [0x4D, 0x5A]"
proof -
  let ?argv = "[''patcher'', ''Wow.exe'']"
  let ?w = "start_world full_fs [False, False, False, False, False, True]"
  let ?v = "start_world tiny_fs []"
  have h: "''Wow.exe'' = ?argv ! 1"
    by simp
  have wr: "list_ex is_write (new_events ?w (snd (main ?argv ?w)))"
    unfolding second_seek_refused_run by (simp add: new_events_def start_world_def)
  have n: "2 \<le> length ?argv"
    by simp
  have c: "files ?v ''Wow.exe'' = Some [0x4D, 0x5A]"
    by (simp add: start_world_def tiny_fs_def)
  have size: "int (length [0x4D, 0x5A :: byte]) \<noteq> kExpectedSize"
    by (simp add: kExpectedSize_def)
  from writes_only_after_backup_and_validation [OF h, of ?w] wr
  have a: "fst (createBackup ''Wow.exe'' ?w) = Some (''Wow.exe'' @ ''.backup'')
      \<and> fst (validateExecutable ''Wow.exe'' (snd (createBackup ''Wow.exe'' ?w)))"
    by blast
  from writes_only_after_backup_and_validation [OF h, of ?v] n c size
  have b: "fst (main ?argv ?v) = EXIT_FAILURE
      \<and> \<not> list_ex is_write (new_events ?v (snd (main ?argv ?v)))
      \<and> files (snd (main ?argv ?v)) ''Wow.exe'' = Some [0x4D, 0x5A]"
    by blast
  from h wr a n c size b show ?thesis
    by blast
qed

section \<open>Failing writes on the buffered stream\<close>

lemma emit_b_simps [simp]:
  "files (emit_b e w) = files w"
  "wowExe (emit_b e w) = wowExe w"
  "faults (emit_b e w) = faults w"
  "trace (emit_b e w) = trace w @ [e]"
  "pending (emit_b e w) = pending w"
  "cap (emit_b e w) = cap w"
  by (simp_all add: emit_b_def)

lemma handleStreamError_b_simps [simp]:
  "fst (handleStreamError_b s m w) = stream_fail s"
  "snd (handleStreamError_b s m w) = (if stream_fail s then emit_b (Cerr (m @ nl)) w else w)"
  by (simp_all add: handleStreamError_b_def)










lemma take_Suc_mult:
  "take (Suc j * K) xs = take K xs @ take (j * K) (drop K xs)"
  by (simp only: mult_Suc take_add)

lemma drop_Suc_mult:
  "drop (j * K) (drop K xs) = drop (Suc j * K) xs"
  by (simp add: add.commute)



















end
